theory Spec2Isabelle
  imports Main
begin

section \<open>Strings and string formatting\<close>

text \<open>
  Python strings are modelled as \<^typ>\<open>string\<close>; a character stands for the code point
  of the same number. \<open>str_join sep xs\<close> is \<^verbatim>\<open>sep.join(xs)\<close> on a list of strings.
\<close>

fun str_join :: "string \<Rightarrow> string list \<Rightarrow> string" where
  "str_join sep [] = []"
| "str_join sep [x] = x"
| "str_join sep (x # y # ys) = x @ sep @ str_join sep (y # ys)"

text \<open>\<^verbatim>\<open>s.replace(old, new)\<close> for a one-character \<open>old\<close>, the only use the source makes of it.\<close>

definition str_replace :: "char \<Rightarrow> string \<Rightarrow> string \<Rightarrow> string" where
  "str_replace old new s = concat (map (\<lambda>c. if c = old then new else [c]) s)"

definition digit_char :: "nat \<Rightarrow> char" where
  "digit_char n = ''0123456789abcdef'' ! n"

fun dec_digits :: "nat \<Rightarrow> string" where
  "dec_digits n = (if n < 10 then [digit_char n] else dec_digits (n div 10) @ [digit_char (n mod 10)])"

text \<open>\<^verbatim>\<open>str(i)\<close> and \<^verbatim>\<open>'%d' % i\<close> for an integer.\<close>

definition int_str :: "int \<Rightarrow> string" where
  "int_str i = (if i < 0 then CHR ''-'' # dec_digits (nat (- i)) else dec_digits (nat i))"

definition quote :: char where
  "quote = CHR 0x27"

definition dquote :: char where
  "dquote = CHR 0x22"

definition backslash :: char where
  "backslash = CHR 0x5C"

section \<open>Field types\<close>

text \<open>
  A declared field is an object of one of the subclasses of \<^verbatim>\<open>Field\<close>. The subclass is
  the \<open>kind\<close>; \<open>funique\<close> and \<open>fnull\<close> are the attributes \<^verbatim>\<open>unique\<close> and \<^verbatim>\<open>null\<close> set by
  \<^verbatim>\<open>Field.__init__\<close>, \<open>fname\<close> is the attribute \<^verbatim>\<open>name\<close> the metaclass sets at declaration. A foreign key holds the
  model class it is bound to (\<^verbatim>\<open>bind_model\<close>); a class can only be bound after it has
  been declared, so the classes reachable from a field form a finite tree and the bound
  class is kept by value. \<open>mdb\<close> is the reference to the \<^verbatim>\<open>Database\<close> object the class
  was declared under (\<^verbatim>\<open>_Model__database\<close>).
\<close>

datatype field = Field (kind: field_kind) (fname: string) (funique: bool) (fnull: bool)
and field_kind =
    TextField
  | IntegerField
  | RealField
  | PrimaryKey (autoincrement: bool)
  | ForeignKey (bind_model: model)
and model = Model (mname: string) (mfields: "(string \<times> field) list") (mdb: "nat option")

text \<open>
  Python values: \<^verbatim>\<open>None\<close>, integers, strings and instances of declared models.
  An instance holds its class, its \<^verbatim>\<open>field_dict\<close> (a dict, kept in insertion order)
  and its \<^verbatim>\<open>_new\<close> flag. Floating-point values, bytes and booleans are outside the
  embedding. The embedding covers schemas that do not declare a field under the name of
  one of the instance's own attributes (\<^verbatim>\<open>field_dict\<close>, \<^verbatim>\<open>_new\<close>).
\<close>

datatype pyval = VNone | VInt int | VStr string | VObj obj
and obj = Instance (cls: model) (field_dict: "(string \<times> pyval) list") (is_new: bool)

text \<open>Exceptions a call of the source can end in.\<close>

datatype exc =
    KeyError string
  | AttributeError
  | TypeError
  | PyException string
  | IntegrityError string
  | SqliteError string

subsection \<open>Dictionaries in insertion order\<close>

text \<open>
  \<^verbatim>\<open>d[k] = v\<close> on a dict or \<^verbatim>\<open>OrderedDict\<close>: an existing key keeps its position and gets
  the new value, a new key goes to the end.
\<close>

fun dict_set :: "('k \<times> 'v) list \<Rightarrow> 'k \<Rightarrow> 'v \<Rightarrow> ('k \<times> 'v) list" where
  "dict_set [] k v = [(k, v)]"
| "dict_set ((k', v') # d) k v = (if k' = k then (k, v) # d else (k', v') # dict_set d k v)"

text \<open>\<^verbatim>\<open>d.get(k)\<close>: the value, or \<^verbatim>\<open>None\<close> when the key is missing.\<close>

definition dict_get :: "(string \<times> pyval) list \<Rightarrow> string \<Rightarrow> pyval" where
  "dict_get d k = (case map_of d k of None \<Rightarrow> VNone | Some v \<Rightarrow> v)"

subsection \<open>\<^verbatim>\<open>repr\<close> and \<^verbatim>\<open>str\<close>\<close>

definition hex2 :: "nat \<Rightarrow> string" where
  "hex2 n = [digit_char (n div 16), digit_char (n mod 16)]"

definition printable :: "char \<Rightarrow> bool" where
  "printable c =
     (let n = (of_char c :: nat)
      in (32 \<le> n \<and> n < 127) \<or> (161 \<le> n \<and> n < 173) \<or> 173 < n)"

definition repr_char :: "char \<Rightarrow> char \<Rightarrow> string" where
  "repr_char q c =
     (if c = q \<or> c = backslash then [backslash, c]
      else if c = CHR 0x09 then [backslash, CHR ''t'']
      else if c = CHR 0x0A then [backslash, CHR ''n'']
      else if c = CHR 0x0D then [backslash, CHR ''r'']
      else if printable c then [c]
      else [backslash, CHR ''x''] @ hex2 (of_char c))"

definition str_repr :: "string \<Rightarrow> string" where
  "str_repr s =
     (let q = (if quote \<in> set s \<and> dquote \<notin> set s then dquote else quote)
      in q # concat (map (repr_char q) s) @ [q])"

text \<open>
  \<^verbatim>\<open>repr\<close> of a value; an instance prints as its \<^verbatim>\<open>field_dict\<close> does
  (\<^verbatim>\<open>Model.__repr__\<close>).
\<close>

fun py_repr :: "pyval \<Rightarrow> string"
and dict_repr_items :: "(string \<times> pyval) list \<Rightarrow> string list" where
  "py_repr VNone = ''None''"
| "py_repr (VInt i) = int_str i"
| "py_repr (VStr s) = str_repr s"
| "py_repr (VObj (Instance c d n)) = ''{'' @ str_join '', '' (dict_repr_items d) @ ''}''"
| "dict_repr_items [] = []"
| "dict_repr_items ((k, v) # d) = (str_repr k @ '': '' @ py_repr v) # dict_repr_items d"

text \<open>\<^verbatim>\<open>str(v)\<close>, which is also what \<^verbatim>\<open>'%s' % v\<close> inserts.\<close>

definition py_str :: "pyval \<Rightarrow> string" where
  "py_str v = (case v of VStr s \<Rightarrow> s | _ \<Rightarrow> py_repr v)"

text \<open>\<^verbatim>\<open>'%d' % v\<close>: a number is required.\<close>

definition format_d :: "pyval \<Rightarrow> exc + string" where
  "format_d v = (case v of VInt i \<Rightarrow> Inr (int_str i) | _ \<Rightarrow> Inl TypeError)"

subsection \<open>The methods of \<^verbatim>\<open>Field\<close> and its subclasses\<close>

definition Field_prepare :: "pyval \<Rightarrow> exc + pyval" where
  "Field_prepare v = Inr v"

text \<open>
  \<^verbatim>\<open>TextField.prepare\<close> calls \<^verbatim>\<open>value.replace\<close>: an integer or \<^verbatim>\<open>None\<close> has no such
  attribute; on a model instance \<^verbatim>\<open>__getattr__\<close> answers \<^verbatim>\<open>None\<close> or a field value,
  neither of which can be called.
\<close>

definition TextField_prepare :: "pyval \<Rightarrow> exc + pyval" where
  "TextField_prepare v =
     (case v of
        VStr s \<Rightarrow> Inr (VStr ([quote] @ str_replace quote [quote, quote] s @ [quote]))
      | VObj ob \<Rightarrow> Inl TypeError
      | _ \<Rightarrow> Inl AttributeError)"

text \<open>\<^verbatim>\<open>ForeignKey.prepare\<close>: \<^verbatim>\<open>'%d' % bind_model['id']\<close>, with \<^verbatim>\<open>Model.__getitem__\<close>.\<close>

definition ForeignKey_prepare :: "pyval \<Rightarrow> exc + pyval" where
  "ForeignKey_prepare v =
     (case v of
        VObj ob \<Rightarrow> (case format_d (dict_get (field_dict ob) ''id'') of
                      Inl e \<Rightarrow> Inl e
                    | Inr s \<Rightarrow> Inr (VStr s))
      | _ \<Rightarrow> Inl TypeError)"

text \<open>Method dispatch on the class of the field object.\<close>

definition prepare :: "field \<Rightarrow> pyval \<Rightarrow> exc + pyval" where
  "prepare f v =
     (case kind f of
        TextField \<Rightarrow> TextField_prepare v
      | ForeignKey m \<Rightarrow> ForeignKey_prepare v
      | _ \<Rightarrow> Field_prepare v)"

definition validate :: "field \<Rightarrow> pyval \<Rightarrow> bool" where
  "validate f v =
     (case kind f of
        TextField \<Rightarrow> (case v of VStr s \<Rightarrow> True | _ \<Rightarrow> False)
      | _ \<Rightarrow> True)"

definition sqlite_field_name :: "field_kind \<Rightarrow> string" where
  "sqlite_field_name k =
     (case k of
        TextField \<Rightarrow> ''TEXT''
      | IntegerField \<Rightarrow> ''INTEGER''
      | RealField \<Rightarrow> ''REAL''
      | PrimaryKey a \<Rightarrow> ''INTEGER PRIMARY KEY''
      | ForeignKey m \<Rightarrow> ''INTEGER'')"

definition Field_get_sqlite_def :: "field \<Rightarrow> string" where
  "Field_get_sqlite_def f =
     fname f @ '' '' @ sqlite_field_name (kind f)
       @ (if \<not> fnull f then '' NOT NULL'' else [])
       @ (if funique f then '' UNIQUE'' else [])"

definition get_sqlite_def :: "field \<Rightarrow> string" where
  "get_sqlite_def f =
     (case kind f of
        PrimaryKey a \<Rightarrow> Field_get_sqlite_def f @ (if a then '' AUTOINCREMENT'' else [])
      | _ \<Rightarrow> Field_get_sqlite_def f)"

section \<open>The database engine\<close>

text \<open>
  The \<^verbatim>\<open>sqlite3\<close> module is not part of the repository. It is a parameter of the
  embedding: \<open>connect\<close> opens a store and gives the state of the connection or raises,
  \<open>conn_execute\<close> is \<^verbatim>\<open>connection.execute(sql)\<close> (the new state, with the exception it
  raised if any), \<open>conn_commit\<close> is \<^verbatim>\<open>connection.commit()\<close>, and \<open>cursor_execute\<close> is
  \<^verbatim>\<open>cursor.execute(sql)\<close> on a fresh cursor: the column names of \<^verbatim>\<open>description\<close> and
  the rows a fetch delivers, or an exception.
\<close>

record 'c engine =
  connect :: "string \<Rightarrow> exc + 'c"
  conn_execute :: "'c \<Rightarrow> string \<Rightarrow> exc option \<times> 'c"
  conn_commit :: "'c \<Rightarrow> 'c"
  cursor_execute :: "'c \<Rightarrow> string \<Rightarrow> exc + string list \<times> pyval list list"

section \<open>The \<^verbatim>\<open>Database\<close> singleton\<close>

text \<open>
  A \<^verbatim>\<open>Database\<close> object has a name, the ordered dict of the models declared under it and
  its connection. The objects live in a store addressed by references; the class
  attribute \<^verbatim>\<open>Database.instance\<close> is a reference, absent until the first object is made.
  The calls the program makes to the logging module and to the engine are recorded, in
  order, in \<open>events\<close>. An exception that leaves a function ends the run that the
  embedding describes: the result is then \<open>Inl\<close> of the exception. \<^verbatim>\<open>Database.__del__\<close>,
  which closes the connection when the object is collected, is not part of it.
\<close>

record 'c database =
  db_name :: string
  models :: "(string \<times> model) list"
  connection :: 'c

datatype event =
    LogDebug string
  | LogError string
  | Connect string
  | Execute nat string
  | Commit nat
  | CursorExecute nat string

record 'c world =
  heap :: "nat \<Rightarrow> 'c database"
  next_ref :: nat
  Database_instance :: "nat option"
  events :: "event list"

definition log_event :: "event \<Rightarrow> 'c world \<Rightarrow> 'c world" where
  "log_event e w = w\<lparr>events := events w @ [e]\<rparr>"

text \<open>\<^verbatim>\<open>Database.__new__\<close>: the accessor without a name, a fresh object with one.\<close>

definition Database_new :: "'c world \<Rightarrow> string option \<Rightarrow> exc + nat \<times> 'c world" where
  "Database_new w name =
     (case name of
        None \<Rightarrow>
          (case Database_instance w of
             None \<Rightarrow> Inl (PyException
               ''Database not set. Please, set the database name before defining the models'')
           | Some r \<Rightarrow> Inr (r, w))
      | Some n \<Rightarrow>
          (let r = next_ref w
           in Inr (r, w\<lparr>next_ref := Suc r, Database_instance := Some r\<rparr>)))"

text \<open>\<^verbatim>\<open>Database.__init__\<close>, which Python runs on the object \<^verbatim>\<open>__new__\<close> returned.\<close>

definition Database_init_self :: "'c engine \<Rightarrow> 'c world \<Rightarrow> nat \<Rightarrow> string option \<Rightarrow> exc + 'c world" where
  "Database_init_self E w self name =
     (case name of
        None \<Rightarrow> Inr w
      | Some n \<Rightarrow>
          (case connect E n of
             Inl e \<Rightarrow> Inl e
           | Inr c \<Rightarrow>
               Inr (log_event (LogDebug (''Connecting to '' @ n))
                     (log_event (Connect n)
                       (w\<lparr>heap := (heap w)(self := \<lparr>db_name = n, models = [], connection = c\<rparr>)\<rparr>)))))"

text \<open>The call \<^verbatim>\<open>Database(name)\<close>; \<^verbatim>\<open>Database()\<close> is \<open>Database E w None\<close>.\<close>

definition Database :: "'c engine \<Rightarrow> 'c world \<Rightarrow> string option \<Rightarrow> exc + nat \<times> 'c world" where
  "Database E w name =
     (case Database_new w name of
        Inl e \<Rightarrow> Inl e
      | Inr (r, w') \<Rightarrow>
          (case Database_init_self E w' r name of
             Inl e \<Rightarrow> Inl e
           | Inr w'' \<Rightarrow> Inr (r, w'')))"

text \<open>
  \<^verbatim>\<open>Database.execute\<close> logs the statement and passes it to the connection. The world is
  returned together with the exception, since \<^verbatim>\<open>Model.presave\<close> catches one of them.
\<close>

definition Database_execute :: "'c engine \<Rightarrow> 'c world \<Rightarrow> nat \<Rightarrow> string \<Rightarrow> exc option \<times> 'c world" where
  "Database_execute E w self sql =
     (let w1 = log_event (Execute self sql) (log_event (LogDebug sql) w);
          (e, c) = conn_execute E (connection (heap w self)) sql
      in (e, w1\<lparr>heap := (heap w1)(self := (heap w1 self)\<lparr>connection := c\<rparr>)\<rparr>))"

definition Database_commit :: "'c engine \<Rightarrow> 'c world \<Rightarrow> nat \<Rightarrow> 'c world" where
  "Database_commit E w self =
     (let w1 = log_event (Commit self)
                 (log_event (LogDebug (''Commiting db '' @ db_name (heap w self))) w)
      in w1\<lparr>heap := (heap w1)(self := (heap w1 self)\<lparr>connection := conn_commit E (connection (heap w1 self))\<rparr>)\<rparr>)"

text \<open>The statement \<^verbatim>\<open>Database.init\<close> builds for one entry of \<^verbatim>\<open>self.models\<close>.\<close>

definition create_table_sql :: "bool \<Rightarrow> string \<Rightarrow> model \<Rightarrow> string" where
  "create_table_sql not_exists model_name model_obj =
     (let sql_query_part = str_join '', '' (map (\<lambda>(name, field). get_sqlite_def field) (mfields model_obj));
          if_not_exists = (if not_exists then '' IF NOT EXISTS'' else [])
      in ''CREATE TABLE'' @ if_not_exists @ '' '' @ model_name @ '' ('' @ sql_query_part @ '');'')"

text \<open>The loop of \<^verbatim>\<open>Database.init\<close> over \<^verbatim>\<open>self.models.items()\<close>.\<close>

fun init_loop :: "'c engine \<Rightarrow> nat \<Rightarrow> bool \<Rightarrow> (string \<times> model) list \<Rightarrow> 'c world \<Rightarrow> exc + 'c world" where
  "init_loop E self not_exists [] w = Inr w"
| "init_loop E self not_exists ((model_name, model_obj) # ms) w =
     (case Database_execute E w self (create_table_sql not_exists model_name model_obj) of
        (Some e, w') \<Rightarrow> Inl e
      | (None, w') \<Rightarrow> init_loop E self not_exists ms w')"

definition Database_init :: "'c engine \<Rightarrow> 'c world \<Rightarrow> nat \<Rightarrow> bool \<Rightarrow> exc + 'c world" where
  "Database_init E w self not_exists =
     (case init_loop E self not_exists (models (heap w self)) w of
        Inl e \<Rightarrow> Inl e
      | Inr w' \<Rightarrow> Inr (Database_commit E w' self))"

section \<open>Model declaration: the metaclass\<close>

text \<open>
  The namespace of a class body is an \<^verbatim>\<open>OrderedDict\<close>: its items come in the order of
  declaration. An attribute is a \<^verbatim>\<open>Field\<close> object or anything else (a method, a
  constant). Every declaration is taken to make its own field object. The \<open>fname\<close> a
  field object carries in the namespace is overwritten by the last loop of
  \<^verbatim>\<open>ModelClass.__new__\<close>.
\<close>

datatype attr = AField field | AOther

definition set_name :: "string \<Rightarrow> field \<Rightarrow> field" where
  "set_name n f = Field (kind f) n (funique f) (fnull f)"


text \<open>
  \<^verbatim>\<open>ModelClass.__new__\<close>. A class named \<^verbatim>\<open>Model\<close> gets neither a database nor a place
  in \<^verbatim>\<open>models\<close>: its \<open>mdb\<close> is \<open>None\<close>.
\<close>

definition ModelClass_new :: "'c engine \<Rightarrow> 'c world \<Rightarrow> string \<Rightarrow> (string \<times> attr) list \<Rightarrow> exc + model \<times> 'c world" where
  "ModelClass_new E w name namespace =
     (let fs = fold (\<lambda>(field_name, field_obj) fs.
                       case field_obj of AField f \<Rightarrow> dict_set fs field_name f | AOther \<Rightarrow> fs)
                    namespace [];
          named = map (\<lambda>(f_name, f). (f_name, set_name f_name f)) fs
      in if name \<noteq> ''Model'' then
           (case Database E w None of
              Inl e \<Rightarrow> Inl e
            | Inr (r, w') \<Rightarrow>
                (let result = Model name named (Some r)
                 in Inr (result,
                      w'\<lparr>heap := (heap w')(r := (heap w' r)\<lparr>models := dict_set (models (heap w' r)) name result\<rparr>)\<rparr>)))
         else Inr (Model name named None, w))"

section \<open>Model instances\<close>

text \<open>\<^verbatim>\<open>Model.__init__\<close>: the loop over \<^verbatim>\<open>kwargs.items()\<close>, then \<^verbatim>\<open>self._new = True\<close>.\<close>

definition Model_init_self :: "model \<Rightarrow> (string \<times> pyval) list \<Rightarrow> obj" where
  "Model_init_self c kwargs =
     Instance c
       (fold (\<lambda>(field_name, field_value) d.
                case map_of (mfields c) field_name of
                  None \<Rightarrow> d
                | Some f \<Rightarrow> if validate f field_value then dict_set d field_name field_value else d)
             kwargs [])
       True"


definition Model_getitem :: "obj \<Rightarrow> string \<Rightarrow> pyval" where
  "Model_getitem self item = dict_get (field_dict self) item"

definition Model_setitem :: "obj \<Rightarrow> string \<Rightarrow> pyval \<Rightarrow> obj" where
  "Model_setitem self key v = Instance (cls self) (dict_set (field_dict self) key v) (is_new self)"

text \<open>\<^verbatim>\<open>obj._new = False\<close>, as \<^verbatim>\<open>get\<close> and \<^verbatim>\<open>get_all\<close> do on the instances they return.\<close>

definition set_new :: "bool \<Rightarrow> obj \<Rightarrow> obj" where
  "set_new b self = Instance (cls self) (field_dict self) b"

section \<open>Queries\<close>

text \<open>The statement \<^verbatim>\<open>get\<close> and \<^verbatim>\<open>get_all\<close> build, each with the same lines.\<close>

definition select_sql :: "model \<Rightarrow> (string \<times> pyval) list \<Rightarrow> string" where
  "select_sql c kwargs =
     (let field_names = str_join '', '' (map fst (mfields c));
          where_list = map (\<lambda>(k, v). k @ ''='' @ [dquote] @ py_str v @ [dquote]) kwargs;
          where_string = (if where_list \<noteq> [] then ''WHERE '' @ str_join '' AND '' where_list else [])
      in ''SELECT '' @ field_names @ '' FROM '' @ mname c @ '' '' @ where_string @ '';'')"

text \<open>
  \<^verbatim>\<open>Model.get_all\<close>: every fetched row becomes the keyword arguments of the
  constructor as it is. The result is the list, or \<open>None\<close> for Python's \<^verbatim>\<open>None\<close>.
\<close>

definition Model_get_all :: "'c engine \<Rightarrow> 'c world \<Rightarrow> model \<Rightarrow> (string \<times> pyval) list \<Rightarrow> exc + obj list option \<times> 'c world" where
  "Model_get_all E w c kwargs =
     (case mdb c of
        None \<Rightarrow> Inl AttributeError
      | Some r \<Rightarrow>
          (let sql = select_sql c kwargs;
               w1 = log_event (CursorExecute r sql) (log_event (LogDebug sql) w)
           in case cursor_execute E (connection (heap w r)) sql of
                Inl e \<Rightarrow> Inl e
              | Inr (column_names, query_results) \<Rightarrow>
                  if query_results \<noteq> [] then
                    Inr (Some (map (\<lambda>query_result.
                                      set_new False
                                        (Model_init_self c
                                          (fold (\<lambda>(key, v) d. dict_set d key v)
                                                (zip column_names query_result) [])))
                                   query_results), w1)
                  else Inr (None, w1)))"

section \<open>Saving\<close>

text \<open>
  The first loop of \<^verbatim>\<open>Model.presave\<close>: \<^verbatim>\<open>field_names\<close> and \<^verbatim>\<open>field_values\<close>, kept as
  one list of pairs. \<^verbatim>\<open>self.fields[field_name]\<close> raises for a key that is no field.
\<close>

fun prepare_fields :: "(string \<times> field) list \<Rightarrow> (string \<times> pyval) list \<Rightarrow> exc + (string \<times> pyval) list" where
  "prepare_fields fs [] = Inr []"
| "prepare_fields fs ((field_name, field_value) # d) =
     (case map_of fs field_name of
        None \<Rightarrow> Inl (KeyError field_name)
      | Some field_obj \<Rightarrow>
          (case prepare field_obj field_value of
             Inl e \<Rightarrow> Inl e
           | Inr p \<Rightarrow>
               (case prepare_fields fs d of
                  Inl e \<Rightarrow> Inl e
                | Inr ps \<Rightarrow> Inr ((field_name, p) # ps))))"

text \<open>\<^verbatim>\<open>", ".join(field_values)\<close> needs every item to be a string.\<close>

fun str_items :: "pyval list \<Rightarrow> exc + string list" where
  "str_items [] = Inr []"
| "str_items (VStr s # vs) = (case str_items vs of Inl e \<Rightarrow> Inl e | Inr ss \<Rightarrow> Inr (s # ss))"
| "str_items (v # vs) = Inl TypeError"

definition insert_sql :: "string \<Rightarrow> (string \<times> pyval) list \<Rightarrow> exc + string" where
  "insert_sql table prepared =
     (case str_items (map snd prepared) of
        Inl e \<Rightarrow> Inl e
      | Inr field_values \<Rightarrow>
          Inr (''INSERT INTO '' @ table @ '' ('' @ str_join '', '' (map fst prepared)
                 @ '') VALUES ('' @ str_join '', '' field_values @ '');''))"

definition update_sql :: "string \<Rightarrow> (string \<times> pyval) list \<Rightarrow> pyval \<Rightarrow> exc + string" where
  "update_sql table prepared ident =
     (let fields_sets = str_join '', '' (map (\<lambda>(f_n, f_v). f_n @ ''='' @ py_str f_v) prepared)
      in case format_d ident of
           Inl e \<Rightarrow> Inl e
         | Inr i \<Rightarrow> Inr (''UPDATE '' @ table @ '' SET '' @ fields_sets @ '' WHERE id='' @ i @ '';''))"

text \<open>
  \<^verbatim>\<open>Model.presave\<close>. \<open>presave_sql\<close> is the statement it builds, or the exception raised
  on the way. Only \<^verbatim>\<open>sqlite3.IntegrityError\<close> is caught; it is logged with
  \<^verbatim>\<open>logging.error\<close>. An instance of a class without a database has no
  \<^verbatim>\<open>_Model__database\<close> to execute on. The instance itself is not written to.
\<close>

definition presave_sql :: "obj \<Rightarrow> exc + string" where
  "presave_sql self =
     (case prepare_fields (mfields (cls self)) (field_dict self) of
        Inl e \<Rightarrow> Inl e
      | Inr prepared \<Rightarrow>
          (if is_new self then insert_sql (mname (cls self)) prepared
           else update_sql (mname (cls self)) prepared (Model_getitem self ''id'')))"

definition Model_presave :: "'c engine \<Rightarrow> 'c world \<Rightarrow> obj \<Rightarrow> exc + 'c world" where
  "Model_presave E w self =
     (case presave_sql self of
        Inl e \<Rightarrow> Inl e
      | Inr sql \<Rightarrow>
          (case mdb (cls self) of
             None \<Rightarrow> Inl AttributeError
           | Some r \<Rightarrow>
               (case Database_execute E w r sql of
                  (None, w') \<Rightarrow> Inr w'
                | (Some (IntegrityError msg), w') \<Rightarrow> Inr (log_event (LogError msg) w')
                | (Some e, w') \<Rightarrow> Inl e)))"

definition Model_commit :: "'c engine \<Rightarrow> 'c world \<Rightarrow> obj \<Rightarrow> exc + 'c world" where
  "Model_commit E w self =
     (case mdb (cls self) of
        None \<Rightarrow> Inl AttributeError
      | Some r \<Rightarrow> Inr (Database_commit E w r))"

definition Model_save :: "'c engine \<Rightarrow> 'c world \<Rightarrow> obj \<Rightarrow> exc + 'c world" where
  "Model_save E w self =
     (case Model_presave E w self of
        Inl e \<Rightarrow> Inl e
      | Inr w' \<Rightarrow> Model_commit E w' self)"


section \<open>An example: two schemas and an engine\<close>

text \<open>
  \<^verbatim>\<open>Person\<close> has a primary key and a text field, \<^verbatim>\<open>Pet\<close> a primary key and a foreign key
  bound to \<^verbatim>\<open>Person\<close>; both are declared under the database object at reference 0. The
  example engine keeps the statements it has executed, refuses a statement it has
  executed before with an integrity error, and answers three queries with rows and a
  fourth with none.
\<close>

definition Person :: model where
  "Person = Model ''Person''
     [(''id'', Field (PrimaryKey True) ''id'' False True),
      (''name'', Field TextField ''name'' False True)] (Some 0)"

definition Pet :: model where
  "Pet = Model ''Pet''
     [(''id'', Field (PrimaryKey True) ''id'' False True),
      (''owner'', Field (ForeignKey Person) ''owner'' False True)] (Some 0)"

definition demo_cursor :: "string \<Rightarrow> exc + string list \<times> pyval list list" where
  \<open>demo_cursor sql =
     (if sql = ''SELECT id, owner FROM Pet WHERE id="1";''
        then Inr ([''id'', ''owner''], [[VInt 1, VInt 7]])
      else if sql = ''SELECT id, name FROM Person WHERE id="7";''
        then Inr ([''id'', ''name''], [[VInt 7, VStr ''Ann'']])
      else if sql = ''SELECT id, owner FROM Pet ;''
        then Inr ([''id'', ''owner''], [[VInt 1, VInt 7], [VInt 2, VInt 7]])
      else if sql = ''SELECT id, owner FROM Pet WHERE id="5";''
        then Inr ([''id'', ''owner''], [])
      else Inr ([], []))\<close>

definition demo_engine :: "string list engine" where
  "demo_engine =
     \<lparr>connect = (\<lambda>n. Inr []),
      conn_execute = (\<lambda>c sql. if sql \<in> set c
                                then (Some (IntegrityError ''UNIQUE constraint failed''), c)
                                else (None, c @ [sql])),
      conn_commit = (\<lambda>c. c),
      cursor_execute = (\<lambda>c. demo_cursor)\<rparr>"

text \<open>An engine that accepts every statement.\<close>

definition lax_engine :: "string list engine" where
  "lax_engine = demo_engine\<lparr>conn_execute := (\<lambda>c sql. (None, c @ [sql]))\<rparr>"

definition demo_world :: "string list world" where
  "demo_world =
     \<lparr>heap = (\<lambda>r. \<lparr>db_name = ''test.db'',
                     models = [(''Person'', Person), (''Pet'', Pet)],
                     connection = []\<rparr>),
      next_ref = 1, Database_instance = Some 0, events = []\<rparr>"

text \<open>The world before any \<^verbatim>\<open>Database\<close> object has been made.\<close>

definition empty_world :: "string list world" where
  "empty_world =
     \<lparr>heap = (\<lambda>r. \<lparr>db_name = [], models = [], connection = []\<rparr>),
      next_ref = 0, Database_instance = None, events = []\<rparr>"

text \<open>A new \<^verbatim>\<open>Person\<close>, made by the constructor, and one as \<^verbatim>\<open>get\<close> returns it.\<close>

definition ann :: obj where
  "ann = Model_init_self Person [(''name'', VStr ''Ann'')]"


text \<open>The example world after the \<^verbatim>\<open>INSERT\<close> of that person has been executed once.\<close>

definition saved_world :: "string list world" where
  "saved_world = demo_world\<lparr>heap := (\<lambda>r. (heap demo_world r)\<lparr>connection := [''INSERT INTO Person (name) VALUES ('Ann');'']\<rparr>)\<rparr>"




section \<open>Fetching one record\<close>

text \<open>
  \<^verbatim>\<open>Model.get\<close>, with the loop over \<^verbatim>\<open>zip(column_names, query_result)\<close> as
  \<open>decode_columns\<close>. \<open>field_get\<close> is the call \<^verbatim>\<open>field.get(value)\<close>: \<^verbatim>\<open>Field.get\<close>, the
  identity, for every field but a foreign key, whose \<^verbatim>\<open>ForeignKey.get\<close> calls
  \<^verbatim>\<open>get(id=value)\<close> of the bound class. \<^verbatim>\<open>Model.get\<close> gives the instance, or \<open>None\<close> for
  Python's \<^verbatim>\<open>None\<close>: when there is no row, or the row is an empty tuple.
\<close>

definition Field_get :: "pyval \<Rightarrow> pyval" where
  "Field_get v = v"

definition opt_val :: "obj option \<Rightarrow> pyval" where
  "opt_val x = (case x of None \<Rightarrow> VNone | Some ob \<Rightarrow> VObj ob)"

text \<open>The sizes that decrease along the calls of \<^verbatim>\<open>get\<close>.\<close>

lemma map_of_size_field:
  "map_of fs k = Some f \<Longrightarrow> size f < size_list (size_prod (\<lambda>x. 0) size) fs"
  by (induction fs) (auto split: if_splits)

lemma size_mfields: "size_list (size_prod (\<lambda>x. 0) size) (mfields c) < size c"
  by (cases c) simp

lemma size_bind: "kind f = ForeignKey m \<Longrightarrow> size m < size f"
  by (cases f) simp

function (sequential) Model_get :: "'c engine \<Rightarrow> 'c world \<Rightarrow> model \<Rightarrow> (string \<times> pyval) list \<Rightarrow> exc + obj option \<times> 'c world"
and field_get :: "'c engine \<Rightarrow> 'c world \<Rightarrow> field \<Rightarrow> pyval \<Rightarrow> exc + pyval \<times> 'c world"
and decode_columns :: "'c engine \<Rightarrow> 'c world \<Rightarrow> (string \<times> field) list \<Rightarrow> (string \<times> pyval) list \<Rightarrow> (string \<times> pyval) list \<Rightarrow> exc + (string \<times> pyval) list \<times> 'c world"
where
  "Model_get E w c kwargs =
     (case mdb c of
        None \<Rightarrow> Inl AttributeError
      | Some r \<Rightarrow>
          (let sql = select_sql c kwargs;
               w1 = log_event (CursorExecute r sql) (log_event (LogDebug sql) w)
           in case cursor_execute E (connection (heap w r)) sql of
                Inl e \<Rightarrow> Inl e
              | Inr (column_names, rows) \<Rightarrow>
                  (case rows of
                     [] \<Rightarrow> Inr (None, w1)
                   | query_result # rest \<Rightarrow>
                       if query_result = [] then Inr (None, w1)
                       else (case decode_columns E w1 (mfields c) (zip column_names query_result) [] of
                               Inl e \<Rightarrow> Inl e
                             | Inr (query_dict, w2) \<Rightarrow>
                                 Inr (Some (set_new False (Model_init_self c query_dict)), w2)))))"
| "field_get E w f v =
     (case kind f of
        ForeignKey m \<Rightarrow>
          (case Model_get E w m [(''id'', v)] of
             Inl e \<Rightarrow> Inl e
           | Inr (bind_obj, w') \<Rightarrow> Inr (opt_val bind_obj, w'))
      | _ \<Rightarrow> Inr (Field_get v, w))"
| "decode_columns E w fs [] query_dict = Inr (query_dict, w)"
| "decode_columns E w fs ((key, v) # cols) query_dict =
     (case map_of fs key of
        None \<Rightarrow> Inl (KeyError key)
      | Some f \<Rightarrow>
          (case field_get E w f v of
             Inl e \<Rightarrow> Inl e
           | Inr (x, w') \<Rightarrow> decode_columns E w' fs cols (dict_set query_dict key x)))"
  by pat_completeness auto

termination
proof (relation "measures
    [\<lambda>x. case x of Inl (E, w, c, kw) \<Rightarrow> size c
                 | Inr (Inl (E, w, f, v)) \<Rightarrow> size f
                 | Inr (Inr (E, w, fs, cols, qd)) \<Rightarrow> size_list (size_prod (\<lambda>x. 0) size) fs,
     \<lambda>x. case x of Inl (E, w, c, kw) \<Rightarrow> 0
                 | Inr (Inl (E, w, f, v)) \<Rightarrow> 0
                 | Inr (Inr (E, w, fs, cols, qd)) \<Rightarrow> length cols]")
qed (auto simp: size_mfields dest!: map_of_size_field size_bind)

text \<open>The equations of \<^verbatim>\<open>get\<close> are unfolded where a proof asks for them.\<close>

declare Model_get.simps [simp del] field_get.simps [simp del]


section \<open>Field encoding and decoding\<close>

text \<open>
  Claim C8. The text field encodes \<^verbatim>\<open>O'Brien\<close> as the literal \<^verbatim>\<open>'O''Brien'\<close>: any string
  is wrapped in single quotes with every single quote in it doubled. Decoding a stored
  value with \<^verbatim>\<open>get\<close> of a text field returns it as it is, and touches nothing else.
\<close>

theorem TextField_encoding:
  "prepare (Field TextField n u nl) (VStr ''O'Brien'')
     = Inr (VStr ([quote] @ ''O'' @ [quote, quote] @ ''Brien'' @ [quote]))
   \<and> prepare (Field TextField n u nl) (VStr s)
     = Inr (VStr ([quote] @ concat (map (\<lambda>c. if c = quote then [quote, quote] else [c]) s) @ [quote]))
   \<and> field_get E w (Field TextField n u nl) v = Inr (v, w)"
  by (simp add: prepare_def TextField_prepare_def str_replace_def quote_def Field_get_def
        field_get.simps cong: if_cong)

section \<open>The database accessor\<close>

text \<open>
  Claim C10. \<^verbatim>\<open>Database()\<close>, the accessor without a name, raises the exception with the
  message that the database is not set when no object has been made yet; when there is
  one, it returns the reference to it and leaves the world as it was.
\<close>

theorem Database_accessor:
  "(Database_instance w = None \<longrightarrow>
      Database E w None = Inl (PyException
        ''Database not set. Please, set the database name before defining the models''))
   \<and> (Database_instance w = Some r \<longrightarrow> Database E w None = Inr (r, w))"
  by (simp add: Database_def Database_new_def Database_init_self_def)

text \<open>Claim C10, on the world without a database object and on the example world.\<close>

theorem Database_accessor_witness:
  "Database_instance empty_world = None
   \<and> Database demo_engine empty_world None = Inl (PyException
        ''Database not set. Please, set the database name before defining the models'')
   \<and> Database_instance demo_world = Some 0
   \<and> Database demo_engine demo_world None = Inr (0, demo_world)"
  using Database_accessor [where w = empty_world and E = demo_engine]
    Database_accessor [where w = demo_world and r = 0 and E = demo_engine]
  by (simp add: empty_world_def demo_world_def)

text \<open>After \<^verbatim>\<open>Database(name)\<close> has returned, the accessor gives that object.\<close>

lemma Database_open_then_access:
  "Database E w (Some n) = Inr (r, w') \<Longrightarrow> Database E w' None = Inr (r, w')"
  by (auto simp: Database_def Database_new_def Database_init_self_def log_event_def Let_def
           split: sum.splits)

section \<open>Queries that match no row\<close>





section \<open>Constructing a record\<close>

lemma dict_set_fresh: "k \<notin> fst ` set d \<Longrightarrow> dict_set d k v = d @ [(k, v)]"
  by (induction d) auto




section \<open>Creating the tables\<close>


lemma Database_commit_events:
  "events (Database_commit E w r) = events w @ [LogDebug (''Commiting db '' @ db_name (heap w r)), Commit r]"
  by (simp add: Database_commit_def log_event_def Let_def)



text \<open>With an engine that raises on no statement, \<^verbatim>\<open>Database.init\<close> returns.\<close>

lemma init_loop_returns:
  "(\<And>c sql. fst (conn_execute E c sql) = None) \<Longrightarrow> \<exists>w'. init_loop E self ne ms w = Inr w'"
proof (induction ms arbitrary: w)
  case Nil
  then show ?case by simp
next
  case (Cons a ms)
  obtain n m where a: "a = (n, m)" by (cases a)
  obtain e w1 where ex: "Database_execute E w self (create_table_sql ne n m) = (e, w1)"
    by (cases "Database_execute E w self (create_table_sql ne n m)")
  have "e = None" using ex Cons.prems [of "connection (heap w self)" "create_table_sql ne n m"]
    by (auto simp: Database_execute_def Let_def split: prod.splits)
  with Cons.IH [OF Cons.prems, of w1] show ?case by (simp add: a ex)
qed

lemma Database_init_returns:
  "(\<And>c sql. fst (conn_execute E c sql) = None) \<Longrightarrow> \<exists>w'. Database_init E w self ne = Inr w'"
  using init_loop_returns [of E self ne "models (heap w self)" w]
  by (auto simp: Database_init_def)

text \<open>
  The order of \<^verbatim>\<open>models\<close> is the order of registration: declaring a class under a
  name that is not registered yet puts it last; a class named \<^verbatim>\<open>Model\<close> is not registered.
\<close>

lemma ModelClass_new_registers:
  assumes "ModelClass_new E w name namespace = Inr (c, w')" and "name \<noteq> ''Model''"
  shows "\<exists>r. Database_instance w = Some r \<and> mdb c = Some r
           \<and> models (heap w' r) = dict_set (models (heap w r)) name c
           \<and> (name \<notin> fst ` set (models (heap w r)) \<longrightarrow>
                 models (heap w' r) = models (heap w r) @ [(name, c)])"
proof -
  from assms obtain r where r: "Database_instance w = Some r"
    by (auto simp: ModelClass_new_def Database_def Database_new_def Let_def
            split: sum.splits option.splits)
  then have acc: "Database E w None = Inr (r, w)"
    by (simp add: Database_def Database_new_def Database_init_self_def)
  from assms acc have c: "mdb c = Some r"
    and m: "models (heap w' r) = dict_set (models (heap w r)) name c"
    by (auto simp: ModelClass_new_def Let_def)
  from r c m dict_set_fresh [of name "models (heap w r)" c] show ?thesis by auto
qed

lemma ModelClass_new_Model_unregistered:
  "ModelClass_new E w ''Model'' namespace = Inr (c, w') \<Longrightarrow> mdb c = None \<and> w' = w"
  by (auto simp: ModelClass_new_def Let_def)


section \<open>Saving a record\<close>

lemma presave_sql_ann: "presave_sql ann = Inr ''INSERT INTO Person (name) VALUES ('Ann');''"
  by (simp add: ann_def presave_sql_def Model_init_self_def Person_def validate_def prepare_def
        TextField_prepare_def str_replace_def quote_def insert_sql_def)


text \<open>
  Claim C6. When the statement that \<^verbatim>\<open>presave\<close> has built is refused by the engine with
  an integrity error, \<^verbatim>\<open>presave\<close> returns normally, having logged the statement, passed
  it to the connection and logged the error; \<^verbatim>\<open>save\<close> goes on to commit and returns
  normally as well. No exception reaches the caller.
\<close>

theorem integrity_error_swallowed:
  assumes "presave_sql self = Inr sql"
    and "mdb (cls self) = Some r"
    and "conn_execute E (connection (heap w r)) sql = (Some (IntegrityError msg), c)"
  shows "\<exists>w'. Model_presave E w self = Inr w'
           \<and> events w' = events w @ [LogDebug sql, Execute r sql, LogError msg]
           \<and> Model_save E w self = Inr (Database_commit E w' r)
           \<and> events (Database_commit E w' r)
               = events w @ [LogDebug sql, Execute r sql, LogError msg,
                             LogDebug (''Commiting db '' @ db_name (heap w r)), Commit r]"
  using assms
  by (simp add: Model_save_def Model_presave_def Model_commit_def Database_execute_def
        Database_commit_events log_event_def Let_def)

text \<open>
  Claim C6 on the example: the engine refuses the \<^verbatim>\<open>INSERT\<close> it has executed before.
\<close>

theorem integrity_error_swallowed_witness:
  "presave_sql ann = Inr ''INSERT INTO Person (name) VALUES ('Ann');''
   \<and> mdb (cls ann) = Some 0
   \<and> conn_execute demo_engine (connection (heap saved_world 0)) ''INSERT INTO Person (name) VALUES ('Ann');''
       = (Some (IntegrityError ''UNIQUE constraint failed''), [''INSERT INTO Person (name) VALUES ('Ann');''])
   \<and> map_sum id events (Model_save demo_engine saved_world ann)
       = Inr [LogDebug ''INSERT INTO Person (name) VALUES ('Ann');'',
              Execute 0 ''INSERT INTO Person (name) VALUES ('Ann');'',
              LogError ''UNIQUE constraint failed'',
              LogDebug ''Commiting db test.db'', Commit 0]"
proof -
  have 2: "mdb (cls ann) = Some 0" by (simp add: ann_def Model_init_self_def Person_def)
  have 3: "conn_execute demo_engine (connection (heap saved_world 0)) ''INSERT INTO Person (name) VALUES ('Ann');''
       = (Some (IntegrityError ''UNIQUE constraint failed''), [''INSERT INTO Person (name) VALUES ('Ann');''])"
    by (simp add: demo_engine_def saved_world_def demo_world_def)
  from integrity_error_swallowed [OF presave_sql_ann 2 3]
  show ?thesis using presave_sql_ann 2 3
    by (auto simp: saved_world_def demo_world_def)
qed








text \<open>
  The \<^verbatim>\<open>INSERT\<close> joins the prepared values with \<^verbatim>\<open>", ".join\<close>; a field whose \<^verbatim>\<open>prepare\<close>
  returns the value as it is makes that raise when the value is an integer.
\<close>

lemma insert_integer_value_raises:
  "Model_save lax_engine demo_world (Model_init_self Person [(''id'', VInt 3), (''name'', VStr ''Ann'')])
     = Inl TypeError"
  by (simp add: Model_save_def Model_presave_def presave_sql_def Model_init_self_def Person_def
        validate_def prepare_def Field_prepare_def TextField_prepare_def insert_sql_def)

section \<open>The order of the columns\<close>





lemma named_fname:
  "map (\<lambda>(k, f). fname f) (map (\<lambda>(f_name, f). (f_name, set_name f_name f)) fs) = map fst fs"
  by (induction fs) (auto simp: set_name_def)





section \<open>What \<^verbatim>\<open>get\<close> and \<^verbatim>\<open>get_all\<close> store\<close>













text \<open>What a successful \<^verbatim>\<open>get\<close> that found a row has done.\<close>

lemma Model_get_Some:
  assumes "Model_get E w c kwargs = Inr (Some ob, w')"
  shows "\<exists>r column_names row rest qd.
           mdb c = Some r
           \<and> cursor_execute E (connection (heap w r)) (select_sql c kwargs) = Inr (column_names, row # rest)
           \<and> decode_columns E (log_event (CursorExecute r (select_sql c kwargs))
                                  (log_event (LogDebug (select_sql c kwargs)) w))
                 (mfields c) (zip column_names row) [] = Inr (qd, w')
           \<and> ob = set_new False (Model_init_self c qd)"
  using assms
  by (auto simp: Model_get.simps Let_def split: option.splits sum.splits list.splits if_splits)







lemma Model_get_all_Some:
  assumes "Model_get_all E w c kwargs = Inr (Some obs, w')"
  shows "\<exists>r column_names rows.
           mdb c = Some r
           \<and> cursor_execute E (connection (heap w r)) (select_sql c kwargs) = Inr (column_names, rows)
           \<and> obs = map (\<lambda>query_result.
                           set_new False
                             (Model_init_self c
                               (fold (\<lambda>(key, v) d. dict_set d key v) (zip column_names query_result) [])))
                        rows
           \<and> w' = log_event (CursorExecute r (select_sql c kwargs))
                     (log_event (LogDebug (select_sql c kwargs)) w)"
  using assms
  by (auto simp: Model_get_all_def Let_def split: option.splits sum.splits if_splits)

lemma get_all_not_new:
  "Model_get_all E w c kwargs = Inr (Some obs, w') \<Longrightarrow> ob \<in> set obs \<Longrightarrow> \<not> is_new ob"
  by (auto dest!: Model_get_all_Some simp: set_new_def)

lemma get_not_new:
  "Model_get E w c kwargs = Inr (Some ob, w') \<Longrightarrow> \<not> is_new ob"
  by (auto dest!: Model_get_Some simp: set_new_def)







end
